theory Spec2Isabelle
  imports Main "HOL-Library.Word"
begin

unbundle bit_operations_syntax

section \<open>Go values shared by the whole builder\<close>

text \<open>
  A Go \<open>error\<close> is modelled by its message; a nilable error is an \<open>error option\<close>
  (\<open>None\<close> is \<open>nil\<close>). A call either returns or panics; a panic carries its message.
  Go strings are byte sequences, as Isabelle's \<open>string\<close> is.
\<close>

type_synonym error = string

datatype 'a outcome = Panic string | Return 'a

type_synonym byte = "8 word"
type_synonym rune = "32 word"

text \<open>\<open>strings.HasPrefix(s, prefix)\<close>.\<close>

definition HasPrefix :: "string \<Rightarrow> string \<Rightarrow> bool" where
  "HasPrefix s pre = (length s \<ge> length pre \<and> take (length pre) s = pre)"

text \<open>The character class \<open>[0-9]\<close> of Go's regular expressions, and a maximal run of it.\<close>

definition isDigit :: "char \<Rightarrow> bool" where
  "isDigit c = (c \<in> set ''0123456789'')"

definition digits :: "string \<Rightarrow> string" where
  "digits s = takeWhile isDigit s"

section \<open>driver.go: the hypervisor driver\<close>

text \<open>
  \<open>exec.Cmd\<close> as the driver builds it, and the channel made by \<open>make(chan int, 1)\<close>,
  known by its identity. Both fields of the driver are nilable pointers in Go.
\<close>

record Cmd =
  Path :: string
  Args :: "string list"

datatype chan = Chan nat

record HyveDriver =
  HyvePath :: string
  QemuImgPath :: string
  vmCmd :: "Cmd option"
  vmEndCh :: "chan option"
  tty :: string

text \<open>
  What \<open>cmd.Wait()\<close> gave the completion watcher: \<open>nil\<close>, an \<open>*exec.ExitError\<close> (whose
  \<open>Sys()\<close> is a \<open>syscall.WaitStatus\<close> with that exit status, or is not), or some other
  error. \<open>exitCode\<close> is the value the watcher sends on \<open>endCh\<close>.
\<close>

datatype wait_result = WaitNil | WaitExitError "int option" | WaitOtherError

fun exitCode :: "wait_result \<Rightarrow> int" where
  "exitCode WaitNil = 0"
| "exitCode (WaitExitError (Some status)) = status"
| "exitCode (WaitExitError None) = 254"
| "exitCode WaitOtherError = 0"

text \<open>
  Which case of the \<open>select\<close> in \<open>Hyve\<close> proceeds: the receive from \<open>endCh\<close> (with what
  the watcher saw) or the two-second timer.
\<close>

datatype race = EndFirst wait_result | TimerFirst

text \<open>
  Everything outside the driver that one call of \<open>Hyve\<close> meets: the error of
  \<open>pty.Start\<close>, the result of \<open>ReadString('\n')\<close> on the pty, the fresh channel, and the
  winner of the race.
\<close>

record hyve_world =
  startErr :: "error option"
  firstLine :: "error + string"
  endCh :: chan
  raced :: race

text \<open>
  \<open>regexp.MustCompile("COM1 connected to (/dev/ttys[0-9]+)").FindStringSubmatch(s)\<close>,
  reduced to the group it captures: the leftmost place where the literal stands before at
  least one digit, with all the digits that follow.
\<close>

fun FindCOM1 :: "string \<Rightarrow> string option" where
  "FindCOM1 [] = None"
| "FindCOM1 (c # cs) =
     (if HasPrefix (c # cs) ''COM1 connected to /dev/ttys''
         \<and> digits (drop (length ''COM1 connected to /dev/ttys'') (c # cs)) \<noteq> []
      then Some (''/dev/ttys'' @ digits (drop (length ''COM1 connected to /dev/ttys'') (c # cs)))
      else FindCOM1 cs)"

declare FindCOM1.simps [simp del]

definition failed_to_start :: error where
  "failed_to_start = ''bhyve/xhyve failed to start. Please run with logs to get more info.''"

text \<open>
  \<open>HyveDriver.Hyve\<close>. The lock is taken on entry and released by the deferred unlock on
  every way out, the panic included, so the watcher's own update of the driver never falls
  inside a call; the result is the value returned (or the panic) and the driver as the
  call leaves it.
\<close>

definition Hyve :: "HyveDriver \<Rightarrow> string list \<Rightarrow> hyve_world \<Rightarrow> error option outcome \<times> HyveDriver" where
  "Hyve d hyveArgs w =
     (if vmCmd d \<noteq> None then (Panic ''Existing VM state found'', d)
      else
        let cmd = \<lparr>Path = HyvePath d, Args = hyveArgs\<rparr> in
        case startErr w of
          Some err \<Rightarrow> (Return (Some (''Error starting VM: '' @ err)), d)
        | None \<Rightarrow>
            (case firstLine w of
               Inl err \<Rightarrow> (Return (Some err), d)
             | Inr line \<Rightarrow>
                 let d1 = (case FindCOM1 line of Some dev \<Rightarrow> d\<lparr>tty := dev\<rparr> | None \<Rightarrow> d) in
                 (case raced w of
                    EndFirst wr \<Rightarrow>
                      if exitCode wr \<noteq> 0 then (Return (Some failed_to_start), d1)
                      else (Return None, d1\<lparr>vmCmd := Some cmd, vmEndCh := Some (endCh w)\<rparr>)
                  | TimerFirst \<Rightarrow>
                      (Return None, d1\<lparr>vmCmd := Some cmd, vmEndCh := Some (endCh w)\<rparr>))))"

text \<open>The tail of the watcher goroutine, run under the lock once the exit code is sent.\<close>

definition watcher_clear :: "HyveDriver \<Rightarrow> HyveDriver" where
  "watcher_clear d = d\<lparr>vmCmd := None, vmEndCh := None\<rparr>"

text \<open>
  \<open>HyveDriver.WaitForShutdown\<close>. The trace lists what the call does to the lock and
  whether it reaches the \<open>select\<close> on the two channels; \<open>shutdown_select\<close> is the case of
  that \<open>select\<close> that proceeds, if the call gets there.
\<close>

datatype shutdown_select = EndChFired int | CancelChFired

datatype driver_event = Lock | Unlock | SelectOn chan

definition WaitForShutdown :: "HyveDriver \<Rightarrow> shutdown_select \<Rightarrow> bool \<times> driver_event list" where
  "WaitForShutdown d sel =
     (case vmEndCh d of
        None \<Rightarrow> (True, [Lock, Unlock])
      | Some ch \<Rightarrow>
          (case sel of
             EndChFired exit \<Rightarrow> (True, [Lock, Unlock, SelectOn ch])
           | CancelChFired \<Rightarrow> (False, [Lock, Unlock, SelectOn ch])))"

text \<open>
  The pattern of \<open>Version\<close>, \<open>[bx]hyve: [0-9]+\.[0-9]+\.[0-9]+\<close>, matched at the start of
  \<open>s\<close>: the length of the match. Each \<open>[0-9]+\<close> is greedy and a digit is never a dot, so
  it takes every digit that stands there.
\<close>

definition versionRe_at :: "string \<Rightarrow> nat option" where
  "versionRe_at s =
     (case s of
        [] \<Rightarrow> None
      | c # r \<Rightarrow>
          if (c = CHR ''b'' \<or> c = CHR ''x'') \<and> HasPrefix r ''hyve: '' then
            let r1 = drop (length ''hyve: '') r; d1 = digits r1; r2 = drop (length d1) r1 in
            if d1 \<noteq> [] \<and> HasPrefix r2 ''.'' then
              let r3 = drop 1 r2; d2 = digits r3; r4 = drop (length d2) r3 in
              if d2 \<noteq> [] \<and> HasPrefix r4 ''.'' then
                let r5 = drop 1 r4; d3 = digits r5 in
                if d3 \<noteq> [] then
                  Some (1 + length ''hyve: '' + length d1 + 1 + length d2 + 1 + length d3)
                else None
              else None
            else None
          else None)"

text \<open>The leftmost match in \<open>s\<close>, as \<open>(start, end)\<close> counted from \<open>i\<close>.\<close>

fun versionRe_find :: "nat \<Rightarrow> string \<Rightarrow> (nat \<times> nat) option" where
  "versionRe_find i [] = None"
| "versionRe_find i (c # cs) =
     (case versionRe_at (c # cs) of
        Some n \<Rightarrow> Some (i, i + n)
      | None \<Rightarrow> versionRe_find (Suc i) cs)"

declare versionRe_find.simps [simp del]

text \<open>
  \<open>versionRe.Split(s, 2)\<close>, after \<open>regexp.Split\<close> of the Go library: the empty string gives
  one empty piece; otherwise \<open>beg\<close> and \<open>end\<close> start at 0, the first match \<open>(m0, m1)\<close> sets
  \<open>end = m0\<close>, appends \<open>s[beg:end]\<close> when \<open>m1 \<noteq> 0\<close> and sets \<open>beg = m1\<close>, a second match
  leaves the loop at once (one piece is there and \<open>n - 1 = 1\<close>), and \<open>s[beg:]\<close> is appended
  when \<open>end \<noteq> len(s)\<close>. The pieces are the text around the match, not the match.
\<close>

definition versionRe_Split2 :: "string \<Rightarrow> string list" where
  "versionRe_Split2 s =
     (if length s = 0 then [[]]
      else
        case versionRe_find 0 s of
          None \<Rightarrow> (if 0 \<noteq> length s then [drop 0 s] else [])
        | Some (m0, m1) \<Rightarrow>
            (if m1 \<noteq> 0 then [take m0 s] else [])
              @ (if m0 \<noteq> length s then [drop m1 s] else []))"

text \<open>
  \<open>HyveDriver.Version\<close>. \<open>cmdRun\<close> is what running the binary with \<open>-v\<close> gave: the error of
  \<open>cmd.Run()\<close> or the bytes on stdout. \<open>strings.TrimSpace\<close> is a parameter. The result is
  Go's pair of the string and the nilable error.
\<close>

definition Version :: "(string \<Rightarrow> string) \<Rightarrow> error + string \<Rightarrow> string \<times> error option" where
  "Version TrimSpace cmdRun =
     (case cmdRun of
        Inl err \<Rightarrow> ([], Some err)
      | Inr stdout \<Rightarrow>
          let versionOutput = TrimSpace stdout;
              matches = versionRe_Split2 versionOutput
          in if length matches = 0 then ([], Some (''No version found: '' @ versionOutput))
             else (matches ! 0, None))"

section \<open>step\_type\_boot\_command.go: typing the boot command over the serial line\<close>

text \<open>
  \<open>utf8.DecodeRuneInString\<close> of the Go library: the first rune of \<open>s\<close> and its width in
  bytes; \<open>(RuneError, 0)\<close> on the empty string and \<open>(RuneError, 1)\<close> on an encoding that is
  not valid UTF-8. The first byte gives the width and the range allowed for the second.
\<close>

definition RuneError :: rune where
  "RuneError = 0xFFFD"

definition DecodeRuneInString :: "string \<Rightarrow> rune \<times> nat" where
  "DecodeRuneInString s =
     (case s of
        [] \<Rightarrow> (RuneError, 0)
      | c0 # _ \<Rightarrow>
          let n = length s; s0 = (of_char c0 :: byte) in
          if s0 < 0x80 then (ucast s0, 1)
          else if s0 < 0xC2 \<or> 0xF4 < s0 then (RuneError, 1)
          else
            let sz = (if s0 < 0xE0 then 2 else if s0 < 0xF0 then 3 else 4) :: nat;
                lo = (if s0 = 0xE0 then 0xA0 else if s0 = 0xF0 then 0x90 else 0x80) :: byte;
                hi = (if s0 = 0xED then 0x9F else if s0 = 0xF4 then 0x8F else 0xBF) :: byte
            in
              if n < sz then (RuneError, 1)
              else
                let s1 = (of_char (s ! 1) :: byte) in
                if s1 < lo \<or> hi < s1 then (RuneError, 1)
                else if sz \<le> 2 then
                  (push_bit 6 (ucast (s0 AND 0x1F)) OR ucast (s1 AND 0x3F), 2)
                else
                  let s2 = (of_char (s ! 2) :: byte) in
                  if s2 < 0x80 \<or> 0xBF < s2 then (RuneError, 1)
                  else if sz \<le> 3 then
                    (push_bit 12 (ucast (s0 AND 0x0F)) OR push_bit 6 (ucast (s1 AND 0x3F))
                       OR ucast (s2 AND 0x3F), 3)
                  else
                    let s3 = (of_char (s ! 3) :: byte) in
                    if s3 < 0x80 \<or> 0xBF < s3 then (RuneError, 1)
                    else
                      (push_bit 18 (ucast (s0 AND 0x07)) OR push_bit 12 (ucast (s1 AND 0x3F))
                         OR push_bit 6 (ucast (s2 AND 0x3F)) OR ucast (s3 AND 0x3F), 4))"

text \<open>
  What the typist does to the world, in order: a \<open>time.Sleep\<close> of so many nanoseconds, or
  one \<open>Write\<close> of one byte to the device with the error the device answered.
\<close>

datatype effect = Sleep int | Write byte "error option"

definition Millisecond :: int where
  "Millisecond = 1000000"

definition Second :: int where
  "Second = 1000 * Millisecond"

text \<open>
  The device is an \<open>io.ReadWriter\<close>: any state \<open>'d\<close> with a \<open>Write\<close> that takes the bytes
  and returns the device after the write and a nilable error (the count is never read).
\<close>

type_synonym 'd writer = "'d \<Rightarrow> byte list \<Rightarrow> 'd \<times> error option"

definition ttySendKey :: "'d writer \<Rightarrow> 'd \<Rightarrow> byte \<Rightarrow> 'd \<times> error option" where
  "ttySendKey com1Write com1 key = com1Write com1 [key]"

text \<open>
  One pass through the body of the loop of \<open>ttySendString\<close>: the effects of the pass, the
  device after it and the rest of \<open>original\<close>. The three directives end the pass with
  \<open>continue\<close>. Otherwise \<open>key\<close> is still 0, a rune is decoded and sent, the error that
  \<open>ttySendKey\<close> returns is dropped, and the pass ends with the sleep of 100 ms.
\<close>

definition ttySendUnit :: "'d writer \<Rightarrow> 'd \<Rightarrow> string \<Rightarrow> effect list \<times> 'd \<times> string" where
  "ttySendUnit com1Write com1 original =
     (if HasPrefix original ''<wait>'' then
        ([Sleep (1 * Second)], com1, drop (length ''<wait>'') original)
      else if HasPrefix original ''<wait5>'' then
        ([Sleep (5 * Second)], com1, drop (length ''<wait5>'') original)
      else if HasPrefix original ''<wait10>'' then
        ([Sleep (10 * Second)], com1, drop (length ''<wait10>'') original)
      else
        (case DecodeRuneInString original of
           (r, sz) \<Rightarrow>
             let key = (ucast r :: byte) in
             (case ttySendKey com1Write com1 key of
                (com1', err) \<Rightarrow>
                  ([Write key err, Sleep (100 * Millisecond)], com1', drop sz original))))"

text \<open>Every pass shortens the string: a decoded rune of a non-empty string has a width.\<close>

lemma HasPrefix_iff: "HasPrefix s pre = (take (length pre) s = pre)"
proof -
  have "length pre \<le> length s" if "take (length pre) s = pre"
  proof -
    have "length pre = length (take (length pre) s)"
      using that by simp
    then show ?thesis by simp
  qed
  then show ?thesis
    by (auto simp: HasPrefix_def)
qed

lemma DecodeRuneInString_size_pos:
  "s \<noteq> [] \<Longrightarrow> 1 \<le> snd (DecodeRuneInString s)"
  by (cases s) (simp_all add: DecodeRuneInString_def Let_def)

lemma DecodeRuneInString_size_le:
  "snd (DecodeRuneInString s) \<le> length s"
proof (cases s)
  case Nil
  then show ?thesis by (simp add: DecodeRuneInString_def)
next
  case (Cons c0 cs)
  show ?thesis
    unfolding DecodeRuneInString_def Let_def Cons list.case
    by (simp add: not_less Suc_le_eq)
qed

lemma ttySendUnit_shorter:
  assumes "0 < length original"
  shows "length (snd (snd (ttySendUnit com1Write com1 original))) < length original"
proof -
  from assms have ne: "original \<noteq> []" by simp
  have "0 < snd (DecodeRuneInString original)"
    using DecodeRuneInString_size_pos [OF ne] by simp
  with assms show ?thesis
    by (auto simp: ttySendUnit_def Let_def split: prod.splits)
qed

lemma ttySendUnit_rest:
  "original \<noteq> [] \<Longrightarrow> (es, com1', rest) = ttySendUnit com1Write com1 original
    \<Longrightarrow> length rest < length original"
  using ttySendUnit_shorter [of original com1Write com1]
  by (cases "ttySendUnit com1Write com1 original") simp

text \<open>
  \<open>ttySendString\<close>: the loop runs while \<open>original\<close> is not empty. The Go function returns
  nothing; the model returns the trace of effects and the device as the loop leaves it.
\<close>

function ttySendString :: "'d writer \<Rightarrow> 'd \<Rightarrow> string \<Rightarrow> effect list \<times> 'd" where
  "ttySendString com1Write com1 original =
     (if length original > 0 then
        (case ttySendUnit com1Write com1 original of
           (es, com1', rest) \<Rightarrow>
             (case ttySendString com1Write com1' rest of
                (tr, com1'') \<Rightarrow> (es @ tr, com1'')))
      else ([], com1))"
  by pat_completeness auto
termination
  by (relation "measure (\<lambda>(com1Write, com1, original). length original)")
    (auto intro: ttySendUnit_rest)

declare ttySendString.simps [simp del]

section \<open>step\_run.go: \<open>Builder.Run\<close> and the artifact\<close>

text \<open>
  The state bag holds values of any type under string keys. The model keeps apart the
  dynamic types \<open>Run\<close> tells from one another: a string, a \<open>uint\<close>, a \<open>uint64\<close>, an
  \<open>error\<close>, and everything else (the cache, the configuration, the driver, the hook, the
  ui, the flags of the runner). \<open>StateCancelled\<close> and \<open>StateHalted\<close> are the keys under
  which the multistep runner records a cancelled and a halted run.
\<close>

datatype bagval = VString string | VUint "64 word" | VUint64 "64 word" | VError error | VOpaque

type_synonym StateBag = "string \<rightharpoonup> bagval"

definition StateCancelled :: string where
  "StateCancelled = ''cancelled''"

definition StateHalted :: string where
  "StateHalted = ''halted''"

text \<open>
  The fields of \<open>Config\<close> that \<open>Run\<close> reads; \<open>DiskSize\<close> is a Go \<open>uint\<close>, 64 bits wide on
  the platforms the builder accepts. \<open>Artifact\<close> has the Go fields \<open>dir\<close>, \<open>f\<close> and
  \<open>state\<close>.
\<close>

record Config =
  HyveBinary :: string
  OutputDir :: string
  Format :: string
  DiskSize :: "64 word"

record Artifact =
  art_dir :: string
  art_f :: "string list"
  art_state :: "string \<rightharpoonup> bagval"

text \<open>
  What \<open>filepath.Walk\<close> finds at a path: a file that is not a directory, a directory with
  its entries in the order \<open>readDirNames\<close> gives them, a directory whose entries cannot be
  read, or a path that \<open>Lstat\<close> fails on. The walk calls \<open>walkFn\<close> with the path, the
  \<open>FileInfo\<close> (here: whether it is a directory; \<open>None\<close> is the nil \<open>FileInfo\<close> of a failed
  \<open>Lstat\<close>) and the error, and stops at the first call that does not return nil. \<open>J\<close> is
  \<open>filepath.Join\<close>. The state \<open>'s\<close> is what the closure captures. (The walk's special
  treatment of \<open>filepath.SkipDir\<close> is left out: \<open>visit\<close> returns only the error it is given.)
\<close>

datatype fsnode = File | Dir "(string \<times> fsnode) list" | DirUnreadable error | NoStat error

type_synonym 's WalkFunc =
  "string \<Rightarrow> bool option \<Rightarrow> error option \<Rightarrow> 's \<Rightarrow> error option outcome \<times> 's"

fun walk :: "'s WalkFunc \<Rightarrow> (string \<Rightarrow> string \<Rightarrow> string) \<Rightarrow> string \<Rightarrow> fsnode \<Rightarrow> 's
    \<Rightarrow> error option outcome \<times> 's"
  and walkNames :: "'s WalkFunc \<Rightarrow> (string \<Rightarrow> string \<Rightarrow> string) \<Rightarrow> string
    \<Rightarrow> (string \<times> fsnode) list \<Rightarrow> 's \<Rightarrow> error option outcome \<times> 's"
where
  "walk walkFn J path File st = walkFn path (Some False) None st"
| "walk walkFn J path (Dir names) st =
     (case walkFn path (Some True) None st of
        (Return None, st1) \<Rightarrow> walkNames walkFn J path names st1
      | (Return (Some err), st1) \<Rightarrow> (Return (Some err), st1)
      | (Panic msg, st1) \<Rightarrow> (Panic msg, st1))"
| "walk walkFn J path (DirUnreadable e) st =
     (case walkFn path (Some True) None st of
        (Return None, st1) \<Rightarrow> walkFn path (Some True) (Some e) st1
      | (Return (Some err), st1) \<Rightarrow> (Return (Some err), st1)
      | (Panic msg, st1) \<Rightarrow> (Panic msg, st1))"
| "walk walkFn J path (NoStat e) st = walkFn path None (Some e) st"
| "walkNames walkFn J path [] st = (Return None, st)"
| "walkNames walkFn J path ((name, node) # names) st =
     (case walk walkFn J (J path name) node st of
        (Return None, st1) \<Rightarrow> walkNames walkFn J path names st1
      | (Return (Some err), st1) \<Rightarrow> (Return (Some err), st1)
      | (Panic msg, st1) \<Rightarrow> (Panic msg, st1))"

text \<open>
  The closure \<open>visit\<close> of \<open>Run\<close>, with the slice \<open>files\<close> it appends to. It calls
  \<open>info.IsDir()\<close> before it looks at \<open>err\<close>, so a nil \<open>info\<close> panics.
\<close>

definition visit :: "string list WalkFunc" where
  "visit path info err files =
     (case info of
        None \<Rightarrow> (Panic ''invalid memory address or nil pointer dereference'', files)
      | Some isDir \<Rightarrow> (Return err, if \<not> isDir then files @ [path] else files))"

text \<open>
  Everything outside \<open>Run\<close>: what \<open>newDriver\<close> returns, what the runner with its steps does
  to the state bag, \<open>filepath.Join\<close>, and the file tree at the output directory.
\<close>

record run_world =
  newDriver :: "error + HyveDriver"
  runner :: "StateBag \<Rightarrow> StateBag"
  Join :: "string \<Rightarrow> string \<Rightarrow> string"
  outputTree :: fsnode

definition new_state :: StateBag where
  "new_state = [''cache'' \<mapsto> VOpaque, ''config'' \<mapsto> VOpaque, ''driver'' \<mapsto> VOpaque,
     ''hook'' \<mapsto> VOpaque, ''ui'' \<mapsto> VOpaque]"

text \<open>
  \<open>Builder.Run\<close>: Go's pair of the artifact and the error, or a panic (a type assertion
  on a value of another type, or the nil \<open>FileInfo\<close>). The result of \<open>driver.Version()\<close>
  is thrown away by the source and has no part in the model.
\<close>

definition Run :: "Config \<Rightarrow> run_world \<Rightarrow> (Artifact option \<times> error option) outcome" where
  "Run config w =
     (case newDriver w of
        Inl err \<Rightarrow> Return (None, Some (''Failed creating bhyve/xhyve driver: '' @ err))
      | Inr driver \<Rightarrow>
          let state = runner w new_state in
          case state ''error'' of
            Some (VError rawErr) \<Rightarrow> Return (None, Some rawErr)
          | Some _ \<Rightarrow> Panic ''interface conversion: interface is not error''
          | None \<Rightarrow>
              if state StateCancelled \<noteq> None then Return (None, Some ''Build was cancelled.'')
              else if state StateHalted \<noteq> None then Return (None, Some ''Build was halted.'')
              else
                (case walk visit (Join w) (OutputDir config) (outputTree w) [] of
                   (Panic msg, files) \<Rightarrow> Panic msg
                 | (Return (Some err), files) \<Rightarrow> Return (None, Some err)
                 | (Return None, files) \<Rightarrow>
                     (case state ''disk_filename'' of
                        Some (VString diskName) \<Rightarrow>
                          Return
                            (Some \<lparr>art_dir = OutputDir config, art_f = files,
                               art_state = [''diskName'' \<mapsto> VString diskName,
                                 ''diskFormat'' \<mapsto> VString (Format config),
                                 ''diskSize'' \<mapsto> VUint64 (ucast (DiskSize config))]\<rparr>,
                             None)
                      | _ \<Rightarrow> Panic ''interface conversion: interface is not string'')))"

section \<open>Notions the properties are stated with\<close>

text \<open>
  A trace of the typist is paced when it is made of two kinds of pieces only: a write
  directly followed by the sleep of 100 ms, and a sleep of 1, 5 or 10 seconds on its own.
\<close>

fun paced :: "effect list \<Rightarrow> bool" where
  "paced [] = True"
| "paced (Write key err # Sleep d # es) = (d = 100 * Millisecond \<and> paced es)"
| "paced (Sleep d # es) = ((d = 1 * Second \<or> d = 5 * Second \<or> d = 10 * Second) \<and> paced es)"
| "paced (Write key err # es) = False"

fun is_Write :: "effect \<Rightarrow> bool" where
  "is_Write (Write key err) = True"
| "is_Write (Sleep d) = False"



section \<open>Concrete inputs\<close>

text \<open>A driver holding no process, and one holding a live process with its channel.\<close>

definition idle_driver :: HyveDriver where
  "idle_driver = \<lparr>HyvePath = ''/usr/local/bin/xhyve'', QemuImgPath = ''/usr/local/bin/qemu-img'',
     vmCmd = None, vmEndCh = None, tty = []\<rparr>"

definition busy_driver :: HyveDriver where
  "busy_driver = idle_driver\<lparr>vmCmd := Some \<lparr>Path = ''/usr/local/bin/xhyve'', Args = [''-A'']\<rparr>,
     vmEndCh := Some (Chan 0), tty := ''/dev/ttys003''\<rparr>"

definition launch_world :: "race \<Rightarrow> hyve_world" where
  "launch_world r = \<lparr>startErr = None, firstLine = Inr ''COM1 connected to /dev/ttys004'',
     endCh = Chan 1, raced = r\<rparr>"

text \<open>
  Two serial devices that keep the bytes written to them: one accepts every write, the
  other answers every write with an error.
\<close>

definition log_write :: "byte list writer" where
  "log_write dev p = (dev @ p, None)"

definition broken_write :: "byte list writer" where
  "broken_write dev p = (dev @ p, Some ''input/output error'')"

text \<open>\<open>strings.TrimSpace\<close> on ASCII text: the six ASCII space characters go, at both ends.\<close>

definition isSpaceASCII :: "char \<Rightarrow> bool" where
  "isSpaceASCII c = (c \<in> set [CHR 0x09, CHR 0x0A, CHR 0x0B, CHR 0x0C, CHR 0x0D, CHR 0x20])"

definition TrimSpaceASCII :: "string \<Rightarrow> string" where
  "TrimSpaceASCII s = rev (dropWhile isSpaceASCII (rev (dropWhile isSpaceASCII s)))"

text \<open>
  A build: its configuration, the output directory with the files \<open>a\<close> and \<open>b/c\<close>, a
  \<open>Join\<close> for clean relative paths, and four runs of the steps: to the end, halted by a
  step that recorded no error, cancelled, and halted by a step that recorded its error.
\<close>

definition slashJoin :: "string \<Rightarrow> string \<Rightarrow> string" where
  "slashJoin dir name = dir @ ''/'' @ name"

definition demo_config :: Config where
  "demo_config = \<lparr>HyveBinary = ''xhyve'', OutputDir = ''out'', Format = ''raw'', DiskSize = 40000\<rparr>"

definition demo_tree :: fsnode where
  "demo_tree = Dir [(''a'', File), (''b'', Dir [(''c'', File)])]"

definition demo_world :: "(StateBag \<Rightarrow> StateBag) \<Rightarrow> fsnode \<Rightarrow> run_world" where
  "demo_world steps tree = \<lparr>newDriver = Inr idle_driver, runner = steps, Join = slashJoin,
     outputTree = tree\<rparr>"

definition steps_complete :: "StateBag \<Rightarrow> StateBag" where
  "steps_complete st = st(''iso_path'' \<mapsto> VString ''cache/tc.iso'',
     ''disk_filename'' \<mapsto> VString ''disk.raw'', ''http_port'' \<mapsto> VUint 8000)"

definition steps_halted :: "StateBag \<Rightarrow> StateBag" where
  "steps_halted st = st(''iso_path'' \<mapsto> VString ''cache/tc.iso'',
     ''disk_filename'' \<mapsto> VString ''disk.raw'', ''http_port'' \<mapsto> VUint 8000,
     StateHalted \<mapsto> VOpaque)"

definition steps_cancelled :: "StateBag \<Rightarrow> StateBag" where
  "steps_cancelled st = st(''iso_path'' \<mapsto> VString ''cache/tc.iso'', StateCancelled \<mapsto> VOpaque,
     StateHalted \<mapsto> VOpaque)"

definition steps_failed :: "StateBag \<Rightarrow> StateBag" where
  "steps_failed st = st(''error'' \<mapsto> VError ''Error connecting to /dev/ttys004: no such file'',
     StateHalted \<mapsto> VOpaque)"


section \<open>Properties of the driver\<close>

lemma FindCOM1_first_line: "FindCOM1 ''COM1 connected to /dev/ttys004'' = Some ''/dev/ttys004''"
  by (simp add: FindCOM1.simps HasPrefix_def digits_def isDigit_def)

text \<open>
  C1 as stated fails: when the completion signal wins the race with exit code 0 (the
  process ended without error inside the two seconds), \<open>Hyve\<close> returns nil and records the
  handle and the channel, since only a non-zero exit code is reported as a failed start.
\<close>

theorem Hyve_completion_first_exit0_counterexample:
  "Hyve idle_driver [''-A''] (launch_world (EndFirst WaitNil)) =
     (Return None,
      idle_driver\<lparr>tty := ''/dev/ttys004'',
        vmCmd := Some \<lparr>Path = ''/usr/local/bin/xhyve'', Args = [''-A'']\<rparr>,
        vmEndCh := Some (Chan 1)\<rparr>)"
  by (simp add: Hyve_def launch_world_def idle_driver_def FindCOM1_first_line)

text \<open>
  C1, amended: for a call of \<open>Hyve\<close> on a driver that holds no handle, once the process
  is started and its first line read, the race decides. If the completion signal is first
  with a non-zero exit code, \<open>Hyve\<close> returns the failed-to-start error and leaves handle and
  channel as they were (not recorded). If the timer is first, or the completion signal is
  first with exit code 0, \<open>Hyve\<close> records the command and the completion channel and
  returns nil.
\<close>

theorem Hyve_race_decides:
  assumes "vmCmd d = None" and "startErr w = None" and "firstLine w = Inr line"
  shows "(raced w = EndFirst wr \<and> exitCode wr \<noteq> 0 \<longrightarrow>
            fst (Hyve d hyveArgs w) = Return (Some failed_to_start)
            \<and> vmCmd (snd (Hyve d hyveArgs w)) = None
            \<and> vmEndCh (snd (Hyve d hyveArgs w)) = vmEndCh d)
       \<and> (raced w = TimerFirst \<or> (raced w = EndFirst wr \<and> exitCode wr = 0) \<longrightarrow>
            fst (Hyve d hyveArgs w) = Return None
            \<and> vmCmd (snd (Hyve d hyveArgs w)) = Some \<lparr>Path = HyvePath d, Args = hyveArgs\<rparr>
            \<and> vmEndCh (snd (Hyve d hyveArgs w)) = Some (endCh w))"
proof (cases "FindCOM1 line")
  case None
  with assms show ?thesis
    by (auto simp add: Hyve_def Let_def)
next
  case (Some dev)
  with assms show ?thesis
    by (auto simp add: Hyve_def Let_def)
qed

theorem Hyve_race_decides_witness:
  "fst (Hyve idle_driver [''-A''] (launch_world (EndFirst (WaitExitError (Some 1))))) =
       Return (Some failed_to_start)
   \<and> vmCmd (snd (Hyve idle_driver [''-A''] (launch_world (EndFirst (WaitExitError (Some 1)))))) = None
   \<and> vmEndCh (snd (Hyve idle_driver [''-A''] (launch_world (EndFirst (WaitExitError (Some 1)))))) = None
   \<and> fst (Hyve idle_driver [''-A''] (launch_world TimerFirst)) = Return None
   \<and> vmCmd (snd (Hyve idle_driver [''-A''] (launch_world TimerFirst))) =
       Some \<lparr>Path = ''/usr/local/bin/xhyve'', Args = [''-A'']\<rparr>
   \<and> vmEndCh (snd (Hyve idle_driver [''-A''] (launch_world TimerFirst))) = Some (Chan 1)"
proof -
  have idle: "vmCmd idle_driver = None" "vmEndCh idle_driver = None"
    "HyvePath idle_driver = ''/usr/local/bin/xhyve''"
    by (simp_all add: idle_driver_def)
  have w: "startErr (launch_world r) = None"
    "firstLine (launch_world r) = Inr ''COM1 connected to /dev/ttys004''"
    "raced (launch_world r) = r" "endCh (launch_world r) = Chan 1" for r
    by (simp_all add: launch_world_def)
  have failed:
    "fst (Hyve idle_driver [''-A''] (launch_world (EndFirst (WaitExitError (Some 1))))) =
       Return (Some failed_to_start)
     \<and> vmCmd (snd (Hyve idle_driver [''-A''] (launch_world (EndFirst (WaitExitError (Some 1)))))) = None
     \<and> vmEndCh (snd (Hyve idle_driver [''-A''] (launch_world (EndFirst (WaitExitError (Some 1)))))) = None"
    using Hyve_race_decides [OF idle(1) w(1) w(2), of "EndFirst (WaitExitError (Some 1))"
      "WaitExitError (Some 1)" "[''-A'']"]
    unfolding w idle by simp
  have timer:
    "fst (Hyve idle_driver [''-A''] (launch_world TimerFirst)) = Return None
     \<and> vmCmd (snd (Hyve idle_driver [''-A''] (launch_world TimerFirst))) =
         Some \<lparr>Path = ''/usr/local/bin/xhyve'', Args = [''-A'']\<rparr>
     \<and> vmEndCh (snd (Hyve idle_driver [''-A''] (launch_world TimerFirst))) = Some (Chan 1)"
    using Hyve_race_decides [OF idle(1) w(1) w(2), of TimerFirst WaitNil "[''-A'']"]
    unfolding w idle by simp
  from failed timer show ?thesis
    by blast
qed

text \<open>
  C2: \<open>Hyve\<close> called on a driver that already holds a handle panics with
  "Existing VM state found" before anything is spawned, and the driver, with its handle
  and completion channel, is exactly as it was.
\<close>

theorem Hyve_twice_panics:
  assumes "vmCmd d \<noteq> None"
  shows "Hyve d hyveArgs w = (Panic ''Existing VM state found'', d)"
  using assms by (simp add: Hyve_def)

theorem Hyve_twice_panics_witness:
  "vmCmd busy_driver \<noteq> None
   \<and> Hyve busy_driver [''-A''] (launch_world TimerFirst) = (Panic ''Existing VM state found'', busy_driver)"
proof -
  have held: "vmCmd busy_driver \<noteq> None"
    by (simp add: busy_driver_def)
  from held Hyve_twice_panics [OF held] show ?thesis
    by simp
qed

text \<open>
  C9: with no completion channel held, \<open>WaitForShutdown\<close> returns true having only taken
  and released the lock: it never reaches the \<open>select\<close>, so the answer does not depend on
  the end or the cancel channel.
\<close>

theorem WaitForShutdown_no_channel:
  assumes "vmEndCh d = None"
  shows "WaitForShutdown d sel = (True, [Lock, Unlock])"
  using assms by (simp add: WaitForShutdown_def)

theorem WaitForShutdown_no_channel_witness:
  "vmEndCh idle_driver = None
   \<and> WaitForShutdown idle_driver CancelChFired = (True, [Lock, Unlock])
   \<and> WaitForShutdown (watcher_clear busy_driver) CancelChFired = (True, [Lock, Unlock])"
proof -
  have a: "vmEndCh idle_driver = None"
    by (simp add: idle_driver_def)
  have b: "vmEndCh (watcher_clear busy_driver) = None"
    by (simp add: watcher_clear_def)
  from a WaitForShutdown_no_channel [OF a] WaitForShutdown_no_channel [OF b] show ?thesis
    by simp
qed

section \<open>Properties of the serial typist\<close>

lemma HasPrefix_shorter:
  assumes "HasPrefix s q" and "length p \<le> length q"
  shows "HasPrefix s p = (take (length p) q = p)"
proof -
  have "take (length p) s = take (length p) (take (length q) s)"
    using assms(2) by (simp add: min_def)
  also have "\<dots> = take (length p) q"
    using assms(1) by (simp add: HasPrefix_iff)
  finally show ?thesis
    by (simp add: HasPrefix_iff)
qed

lemma HasPrefix_wait_exclusive:
  "HasPrefix s ''<wait5>'' \<Longrightarrow> \<not> HasPrefix s ''<wait>''"
  "HasPrefix s ''<wait10>'' \<Longrightarrow> \<not> HasPrefix s ''<wait>''"
  "HasPrefix s ''<wait10>'' \<Longrightarrow> \<not> HasPrefix s ''<wait5>''"
  by (simp_all add: HasPrefix_shorter)

lemma HasPrefix_nonempty: "HasPrefix original (c # cs) \<Longrightarrow> original \<noteq> []"
  by (auto simp: HasPrefix_def)

lemma ttySendString_unfold:
  "original \<noteq> [] \<Longrightarrow> ttySendUnit com1Write com1 original = (es, com1', rest) \<Longrightarrow>
   ttySendString com1Write com1 original =
     (es @ fst (ttySendString com1Write com1' rest), snd (ttySendString com1Write com1' rest))"
  by (subst ttySendString.simps) (simp add: split_beta)

lemma ttySendString_Nil: "ttySendString com1Write com1 [] = ([], com1)"
  by (subst ttySendString.simps) simp

lemma ttySendUnit_wait:
  "HasPrefix original ''<wait>'' \<Longrightarrow>
     ttySendUnit com1Write com1 original = ([Sleep (1 * Second)], com1, drop (length ''<wait>'') original)"
  by (simp add: ttySendUnit_def)

lemma ttySendUnit_wait5:
  "HasPrefix original ''<wait5>'' \<Longrightarrow>
     ttySendUnit com1Write com1 original = ([Sleep (5 * Second)], com1, drop (length ''<wait5>'') original)"
  using HasPrefix_wait_exclusive(1) [of original] by (simp add: ttySendUnit_def)

lemma ttySendUnit_wait10:
  "HasPrefix original ''<wait10>'' \<Longrightarrow>
     ttySendUnit com1Write com1 original = ([Sleep (10 * Second)], com1, drop (length ''<wait10>'') original)"
  using HasPrefix_wait_exclusive(2,3) [of original] by (simp add: ttySendUnit_def)

lemma ttySendString_literal:
  assumes "original \<noteq> []"
    and "\<not> HasPrefix original ''<wait>''" and "\<not> HasPrefix original ''<wait5>''"
    and "\<not> HasPrefix original ''<wait10>''"
    and "DecodeRuneInString original = (r, sz)"
    and "com1Write com1 [ucast r] = (com1', err)"
  shows "ttySendString com1Write com1 original =
           (Write (ucast r) err # Sleep (100 * Millisecond)
              # fst (ttySendString com1Write com1' (drop sz original)),
            snd (ttySendString com1Write com1' (drop sz original)))"
proof -
  have u: "ttySendUnit com1Write com1 original =
      ([Write (ucast r) err, Sleep (100 * Millisecond)], com1', drop sz original)"
    using assms by (simp add: ttySendUnit_def ttySendKey_def Let_def)
  show ?thesis
    using ttySendString_unfold [OF assms(1) u] by simp
qed

lemma ttySendString_wait:
  "HasPrefix original ''<wait>'' \<Longrightarrow>
     ttySendString com1Write com1 original =
       (Sleep (1 * Second) # fst (ttySendString com1Write com1 (drop (length ''<wait>'') original)),
        snd (ttySendString com1Write com1 (drop (length ''<wait>'') original)))"
proof -
  assume p: "HasPrefix original ''<wait>''"
  show ?thesis
    using ttySendString_unfold [OF HasPrefix_nonempty [OF p] ttySendUnit_wait [OF p]] by simp
qed

lemma ttySendString_wait5:
  "HasPrefix original ''<wait5>'' \<Longrightarrow>
     ttySendString com1Write com1 original =
       (Sleep (5 * Second) # fst (ttySendString com1Write com1 (drop (length ''<wait5>'') original)),
        snd (ttySendString com1Write com1 (drop (length ''<wait5>'') original)))"
proof -
  assume p: "HasPrefix original ''<wait5>''"
  show ?thesis
    using ttySendString_unfold [OF HasPrefix_nonempty [OF p] ttySendUnit_wait5 [OF p]] by simp
qed

lemma ttySendString_wait10:
  "HasPrefix original ''<wait10>'' \<Longrightarrow>
     ttySendString com1Write com1 original =
       (Sleep (10 * Second) # fst (ttySendString com1Write com1 (drop (length ''<wait10>'') original)),
        snd (ttySendString com1Write com1 (drop (length ''<wait10>'') original)))"
proof -
  assume p: "HasPrefix original ''<wait10>''"
  show ?thesis
    using ttySendString_unfold [OF HasPrefix_nonempty [OF p] ttySendUnit_wait10 [OF p]] by simp
qed

lemma Decode_a_wait_b: "DecodeRuneInString ''a<wait>b'' = (0x61, 1)"
  by (simp add: DecodeRuneInString_def)

lemma Decode_a_U0100_b: "DecodeRuneInString (''a'' @ [CHR 0xC4, CHR 0x80] @ ''b'') = (0x61, 1)"
  by (simp add: DecodeRuneInString_def)

lemma Decode_U0100_b: "DecodeRuneInString ([CHR 0xC4, CHR 0x80] @ ''b'') = (0x100, 2)"
  by (simp add: DecodeRuneInString_def)

lemma Decode_ab: "DecodeRuneInString ''ab'' = (0x61, 1)"
  by (simp add: DecodeRuneInString_def)

lemma Decode_b: "DecodeRuneInString ''b'' = (0x62, 1)"
  by (simp add: DecodeRuneInString_def)

lemma Decode_U0100: "DecodeRuneInString [CHR 0xC4, CHR 0x80] = (0x100, 2)"
  by (simp add: DecodeRuneInString_def)

lemma no_directive_ab:
  "\<not> HasPrefix ''ab'' ''<wait>''" "\<not> HasPrefix ''ab'' ''<wait5>''" "\<not> HasPrefix ''ab'' ''<wait10>''"
  "\<not> HasPrefix ''b'' ''<wait>''" "\<not> HasPrefix ''b'' ''<wait5>''" "\<not> HasPrefix ''b'' ''<wait10>''"
  by (simp_all add: HasPrefix_def)

text \<open>
  C3: the claim says that a write error aborts the rest of the sequence and reaches the
  caller. The code does neither. On the input \<open>ab\<close>, with a device whose every write
  fails, \<open>ttySendString\<close> still writes \<open>b\<close> after the write of \<open>a\<close> has failed, sleeps after
  both, and has no error to return: the error that \<open>ttySendKey\<close> returns is dropped at the
  call.
\<close>

theorem ttySendString_write_error_ignored:
  "ttySendString broken_write [] ''ab'' =
     ([Write 0x61 (Some ''input/output error''), Sleep (100 * Millisecond),
       Write 0x62 (Some ''input/output error''), Sleep (100 * Millisecond)],
      [0x61, 0x62])"
proof -
  have u1: "ttySendUnit broken_write [] ''ab'' =
      ([Write 0x61 (Some ''input/output error''), Sleep (100 * Millisecond)], [0x61], ''b'')"
    by (simp add: ttySendUnit_def no_directive_ab Decode_ab ttySendKey_def broken_write_def)
  have u2: "ttySendUnit broken_write [0x61] ''b'' =
      ([Write 0x62 (Some ''input/output error''), Sleep (100 * Millisecond)], [0x61, 0x62], [])"
    by (simp add: ttySendUnit_def no_directive_ab Decode_b ttySendKey_def broken_write_def)
  show ?thesis
    by (simp add: ttySendString_unfold [OF _ u1] ttySendString_unfold [OF _ u2] ttySendString_Nil)
qed

text \<open>
  C4 as stated fails: a wait directive is a unit of work, and after it no settling sleep
  of 100 ms follows. The trace of \<open><wait>\<close> is the one-second sleep alone.
\<close>

theorem wait_without_settling_counterexample:
  "ttySendString log_write [] ''<wait>'' = ([Sleep (1 * Second)], [])
   \<and> Sleep (100 * Millisecond) \<notin> set (fst (ttySendString log_write [] ''<wait>''))"
proof -
  have p: "HasPrefix ''<wait>'' ''<wait>''"
    by (simp add: HasPrefix_def)
  have "ttySendString log_write [] ''<wait>'' = ([Sleep (1 * Second)], [])"
    using ttySendString_unfold [OF _ ttySendUnit_wait [OF p], of log_write "[]"]
    by (simp add: ttySendString_Nil)
  then show ?thesis
    by (simp add: Second_def Millisecond_def)
qed

lemma ttySendUnit_effects:
  "fst (ttySendUnit com1Write com1 original) = [Sleep (1 * Second)]
   \<or> fst (ttySendUnit com1Write com1 original) = [Sleep (5 * Second)]
   \<or> fst (ttySendUnit com1Write com1 original) = [Sleep (10 * Second)]
   \<or> (\<exists>key err. fst (ttySendUnit com1Write com1 original) = [Write key err, Sleep (100 * Millisecond)])"
  by (auto simp: ttySendUnit_def Let_def split: prod.splits)

lemma paced_unit_append:
  assumes "paced tr"
  shows "paced (fst (ttySendUnit com1Write com1 original) @ tr)"
  using ttySendUnit_effects [of com1Write com1 original] assms by auto

lemma ttySendString_paced: "paced (fst (ttySendString com1Write com1 original))"
proof (induction com1Write com1 original rule: ttySendString.induct)
  case (1 com1Write com1 original)
  show ?case
  proof (cases "original = []")
    case True
    then show ?thesis by (simp add: ttySendString_Nil)
  next
    case False
    obtain es com1' rest where u: "ttySendUnit com1Write com1 original = (es, com1', rest)"
      by (cases "ttySendUnit com1Write com1 original") auto
    from False have pos: "0 < length original" by simp
    have "paced (fst (ttySendString com1Write com1' rest))"
      using "1.IH" [OF pos u [symmetric] refl] .
    then have "paced (fst (ttySendUnit com1Write com1 original) @ fst (ttySendString com1Write com1' rest))"
      by (rule paced_unit_append)
    with u show ?thesis
      by (simp add: ttySendString_unfold [OF False u])
  qed
qed

lemma paced_counts:
  "paced tr \<Longrightarrow>
     length (filter (\<lambda>e. e = Sleep (100 * Millisecond)) tr) = length (filter is_Write tr)"
  by (induction tr rule: paced.induct) (auto simp: Second_def Millisecond_def)

text \<open>
  C4, amended: in \<open>ttySendString\<close>, for every input and every device, the settling sleep
  of 100 ms occurs after every literal character and never after a wait directive. On the
  empty text the typist does nothing. Where the text begins with \<open><wait>\<close>, \<open><wait5>\<close> or
  \<open><wait10>\<close>, its next effect is the sleep of 1, 5 or 10 seconds alone, and it goes on
  with the text after the directive. Anywhere else its next two effects are the write of
  the byte of the decoded character and, directly after it, the sleep of 100 ms, and it
  goes on with the text after the character. So the whole trace is made of writes each
  followed at once by the 100 ms sleep and of directive sleeps standing alone: one 100 ms
  sleep per written character and none per directive.
\<close>

theorem settling_sleep_per_character:
  "(original = [] \<longrightarrow> ttySendString com1Write com1 original = ([], com1))
   \<and> (HasPrefix original ''<wait>'' \<longrightarrow>
        ttySendString com1Write com1 original =
          (Sleep (1 * Second) # fst (ttySendString com1Write com1 (drop (length ''<wait>'') original)),
           snd (ttySendString com1Write com1 (drop (length ''<wait>'') original))))
   \<and> (HasPrefix original ''<wait5>'' \<longrightarrow>
        ttySendString com1Write com1 original =
          (Sleep (5 * Second) # fst (ttySendString com1Write com1 (drop (length ''<wait5>'') original)),
           snd (ttySendString com1Write com1 (drop (length ''<wait5>'') original))))
   \<and> (HasPrefix original ''<wait10>'' \<longrightarrow>
        ttySendString com1Write com1 original =
          (Sleep (10 * Second) # fst (ttySendString com1Write com1 (drop (length ''<wait10>'') original)),
           snd (ttySendString com1Write com1 (drop (length ''<wait10>'') original))))
   \<and> (original \<noteq> [] \<and> \<not> HasPrefix original ''<wait>'' \<and> \<not> HasPrefix original ''<wait5>''
        \<and> \<not> HasPrefix original ''<wait10>'' \<and> DecodeRuneInString original = (r, sz)
        \<and> com1Write com1 [ucast r] = (com1', err) \<longrightarrow>
        ttySendString com1Write com1 original =
          (Write (ucast r) err # Sleep (100 * Millisecond)
             # fst (ttySendString com1Write com1' (drop sz original)),
           snd (ttySendString com1Write com1' (drop sz original))))
   \<and> paced (fst (ttySendString com1Write com1 original))
   \<and> length (filter (\<lambda>e. e = Sleep (100 * Millisecond)) (fst (ttySendString com1Write com1 original)))
       = length (filter is_Write (fst (ttySendString com1Write com1 original)))"
proof (intro conjI impI)
  assume "original = []"
  then show "ttySendString com1Write com1 original = ([], com1)"
    by (simp add: ttySendString_Nil)
next
  assume "HasPrefix original ''<wait>''"
  then show "ttySendString com1Write com1 original =
      (Sleep (1 * Second) # fst (ttySendString com1Write com1 (drop (length ''<wait>'') original)),
       snd (ttySendString com1Write com1 (drop (length ''<wait>'') original)))"
    by (rule ttySendString_wait)
next
  assume "HasPrefix original ''<wait5>''"
  then show "ttySendString com1Write com1 original =
      (Sleep (5 * Second) # fst (ttySendString com1Write com1 (drop (length ''<wait5>'') original)),
       snd (ttySendString com1Write com1 (drop (length ''<wait5>'') original)))"
    by (rule ttySendString_wait5)
next
  assume "HasPrefix original ''<wait10>''"
  then show "ttySendString com1Write com1 original =
      (Sleep (10 * Second) # fst (ttySendString com1Write com1 (drop (length ''<wait10>'') original)),
       snd (ttySendString com1Write com1 (drop (length ''<wait10>'') original)))"
    by (rule ttySendString_wait10)
next
  assume "original \<noteq> [] \<and> \<not> HasPrefix original ''<wait>'' \<and> \<not> HasPrefix original ''<wait5>''
        \<and> \<not> HasPrefix original ''<wait10>'' \<and> DecodeRuneInString original = (r, sz)
        \<and> com1Write com1 [ucast r] = (com1', err)"
  then show "ttySendString com1Write com1 original =
          (Write (ucast r) err # Sleep (100 * Millisecond)
             # fst (ttySendString com1Write com1' (drop sz original)),
           snd (ttySendString com1Write com1' (drop sz original)))"
    by (intro ttySendString_literal) simp_all
next
  show "paced (fst (ttySendString com1Write com1 original))"
    by (rule ttySendString_paced)
next
  show "length (filter (\<lambda>e. e = Sleep (100 * Millisecond)) (fst (ttySendString com1Write com1 original)))
       = length (filter is_Write (fst (ttySendString com1Write com1 original)))"
    by (rule paced_counts [OF ttySendString_paced])
qed

theorem settling_sleep_per_character_witness:
  "ttySendString log_write [] ''a<wait>b'' =
     ([Write 0x61 None, Sleep (100 * Millisecond), Sleep (1 * Second),
       Write 0x62 None, Sleep (100 * Millisecond)], [0x61, 0x62])
   \<and> ttySendString log_write [] ''<wait5><wait10>'' = ([Sleep (5 * Second), Sleep (10 * Second)], [])
   \<and> ttySendString log_write [] [CHR 0xC4, CHR 0x80] = ([Write 0 None, Sleep (100 * Millisecond)], [0])"
proof -
  have e: "ttySendString log_write d [] = ([], d)" for d
    using settling_sleep_per_character [where original = "[]" and ?com1Write = log_write
        and ?com1.0 = d]
    by simp
  have b: "ttySendString log_write [0x61] ''b'' =
      ([Write 0x62 None, Sleep (100 * Millisecond)], [0x61, 0x62])"
    using settling_sleep_per_character [where original = "''b''" and ?com1Write = log_write
        and ?com1.0 = "[0x61]" and r = "0x62" and sz = 1 and ?com1' = "[0x61, 0x62]" and err = None]
    by (simp add: no_directive_ab Decode_b log_write_def e)
  have wb: "ttySendString log_write [0x61] ''<wait>b'' =
      ([Sleep (1 * Second), Write 0x62 None, Sleep (100 * Millisecond)], [0x61, 0x62])"
    using settling_sleep_per_character [where original = "''<wait>b''"
        and ?com1Write = log_write and ?com1.0 = "[0x61]"]
    by (simp add: HasPrefix_def b)
  have awb: "ttySendString log_write [] ''a<wait>b'' =
     ([Write 0x61 None, Sleep (100 * Millisecond), Sleep (1 * Second),
       Write 0x62 None, Sleep (100 * Millisecond)], [0x61, 0x62])"
    using settling_sleep_per_character [where original = "''a<wait>b''"
        and ?com1Write = log_write and ?com1.0 = "[]" and r = "0x61" and sz = 1
        and ?com1' = "[0x61]" and err = None]
    by (simp add: HasPrefix_def Decode_a_wait_b log_write_def wb)
  have w10: "ttySendString log_write [] ''<wait10>'' = ([Sleep (10 * Second)], [])"
    using settling_sleep_per_character [where original = "''<wait10>''"
        and ?com1Write = log_write and ?com1.0 = "[]"]
    by (simp add: HasPrefix_def e)
  have w5: "ttySendString log_write [] ''<wait5><wait10>'' = ([Sleep (5 * Second), Sleep (10 * Second)], [])"
    using settling_sleep_per_character [where original = "''<wait5><wait10>''"
        and ?com1Write = log_write and ?com1.0 = "[]"]
    by (simp add: HasPrefix_def w10)
  have u: "ttySendString log_write [] [CHR 0xC4, CHR 0x80] = ([Write 0 None, Sleep (100 * Millisecond)], [0])"
    using settling_sleep_per_character [where original = "[CHR 0xC4, CHR 0x80]"
        and ?com1Write = log_write and ?com1.0 = "[]" and r = "0x100" and sz = 2
        and ?com1' = "[0]" and err = None]
    by (simp add: HasPrefix_def Decode_U0100 log_write_def e)
  from awb w5 u show ?thesis
    by blast
qed

text \<open>
  C5: when the string begins with \<open><wait>\<close>, \<open><wait5>\<close> or \<open><wait10>\<close>, the pass of the loop
  sleeps 1, 5 or 10 seconds, writes nothing (its only effect is the sleep, and the device
  is unchanged), and goes on with the string shortened by exactly the length of the
  directive's text. No directive is a prefix of another, so the order of the three tests
  never decides.
\<close>

theorem wait_directives:
  "(HasPrefix original ''<wait>'' \<longrightarrow>
      ttySendUnit com1Write com1 original =
        ([Sleep (1 * Second)], com1, drop (length ''<wait>'') original)
      \<and> ttySendString com1Write com1 original =
        (Sleep (1 * Second) # fst (ttySendString com1Write com1 (drop (length ''<wait>'') original)),
         snd (ttySendString com1Write com1 (drop (length ''<wait>'') original))))
   \<and> (HasPrefix original ''<wait5>'' \<longrightarrow>
      ttySendUnit com1Write com1 original =
        ([Sleep (5 * Second)], com1, drop (length ''<wait5>'') original)
      \<and> ttySendString com1Write com1 original =
        (Sleep (5 * Second) # fst (ttySendString com1Write com1 (drop (length ''<wait5>'') original)),
         snd (ttySendString com1Write com1 (drop (length ''<wait5>'') original))))
   \<and> (HasPrefix original ''<wait10>'' \<longrightarrow>
      ttySendUnit com1Write com1 original =
        ([Sleep (10 * Second)], com1, drop (length ''<wait10>'') original)
      \<and> ttySendString com1Write com1 original =
        (Sleep (10 * Second) # fst (ttySendString com1Write com1 (drop (length ''<wait10>'') original)),
         snd (ttySendString com1Write com1 (drop (length ''<wait10>'') original))))"
proof (intro conjI impI)
  assume p: "HasPrefix original ''<wait>''"
  show u: "ttySendUnit com1Write com1 original =
      ([Sleep (1 * Second)], com1, drop (length ''<wait>'') original)"
    by (rule ttySendUnit_wait [OF p])
  show "ttySendString com1Write com1 original =
      (Sleep (1 * Second) # fst (ttySendString com1Write com1 (drop (length ''<wait>'') original)),
       snd (ttySendString com1Write com1 (drop (length ''<wait>'') original)))"
    using ttySendString_unfold [OF HasPrefix_nonempty [OF p] u] by simp
next
  assume p: "HasPrefix original ''<wait5>''"
  show u: "ttySendUnit com1Write com1 original =
      ([Sleep (5 * Second)], com1, drop (length ''<wait5>'') original)"
    by (rule ttySendUnit_wait5 [OF p])
  show "ttySendString com1Write com1 original =
      (Sleep (5 * Second) # fst (ttySendString com1Write com1 (drop (length ''<wait5>'') original)),
       snd (ttySendString com1Write com1 (drop (length ''<wait5>'') original)))"
    using ttySendString_unfold [OF HasPrefix_nonempty [OF p] u] by simp
next
  assume p: "HasPrefix original ''<wait10>''"
  show u: "ttySendUnit com1Write com1 original =
      ([Sleep (10 * Second)], com1, drop (length ''<wait10>'') original)"
    by (rule ttySendUnit_wait10 [OF p])
  show "ttySendString com1Write com1 original =
      (Sleep (10 * Second) # fst (ttySendString com1Write com1 (drop (length ''<wait10>'') original)),
       snd (ttySendString com1Write com1 (drop (length ''<wait10>'') original)))"
    using ttySendString_unfold [OF HasPrefix_nonempty [OF p] u] by simp
qed

theorem wait_directives_witness:
  "ttySendUnit log_write [] ''<wait>ls'' = ([Sleep (1 * Second)], [], ''ls'')
   \<and> ttySendUnit log_write [] ''<wait5>ls'' = ([Sleep (5 * Second)], [], ''ls'')
   \<and> ttySendUnit log_write [] ''<wait10>ls'' = ([Sleep (10 * Second)], [], ''ls'')
   \<and> ttySendString log_write [] ''<wait5>'' = ([Sleep (5 * Second)], [])"
proof -
  have p: "HasPrefix ''<wait>ls'' ''<wait>''" "HasPrefix ''<wait5>ls'' ''<wait5>''"
    "HasPrefix ''<wait10>ls'' ''<wait10>''" "HasPrefix ''<wait5>'' ''<wait5>''"
    by (simp_all add: HasPrefix_def)
  from p wait_directives [of "''<wait>ls''" log_write "[]"]
    wait_directives [of "''<wait5>ls''" log_write "[]"]
    wait_directives [of "''<wait10>ls''" log_write "[]"]
    wait_directives [of "''<wait5>''" log_write "[]"]
  show ?thesis
    by (simp add: ttySendString_Nil)
qed

text \<open>
  C10: wherever in the boot command no directive stands, \<open>ttySendString\<close> decodes one rune
  \<open>r\<close> of width \<open>sz\<close> and makes exactly one write, of the one byte \<open>byte(r)\<close>, whose value
  is the code point modulo 256 (a code point of 256 or more is cut to its low byte); the
  sleep of 100 ms follows, and the typing goes on after the \<open>sz\<close> bytes of the rune. This
  holds for the pass of the loop and for \<open>ttySendString\<close> itself.
\<close>

theorem literal_character_byte:
  assumes "original \<noteq> []"
    and "\<not> HasPrefix original ''<wait>''" and "\<not> HasPrefix original ''<wait5>''"
    and "\<not> HasPrefix original ''<wait10>''"
    and "DecodeRuneInString original = (r, sz)"
  shows "ttySendUnit com1Write com1 original =
           ([Write (ucast r) (snd (com1Write com1 [ucast r])), Sleep (100 * Millisecond)],
            fst (com1Write com1 [ucast r]), drop sz original)
         \<and> ttySendString com1Write com1 original =
           (Write (ucast r) (snd (com1Write com1 [ucast r])) # Sleep (100 * Millisecond)
              # fst (ttySendString com1Write (fst (com1Write com1 [ucast r])) (drop sz original)),
            snd (ttySendString com1Write (fst (com1Write com1 [ucast r])) (drop sz original)))
         \<and> unat (ucast r :: byte) = unat r mod 256
         \<and> 1 \<le> sz \<and> sz \<le> length original"
proof -
  have "ttySendUnit com1Write com1 original =
           ([Write (ucast r) (snd (com1Write com1 [ucast r])), Sleep (100 * Millisecond)],
            fst (com1Write com1 [ucast r]), drop sz original)"
    using assms by (simp add: ttySendUnit_def ttySendKey_def Let_def split_beta)
  moreover have "ttySendString com1Write com1 original =
           (Write (ucast r) (snd (com1Write com1 [ucast r])) # Sleep (100 * Millisecond)
              # fst (ttySendString com1Write (fst (com1Write com1 [ucast r])) (drop sz original)),
            snd (ttySendString com1Write (fst (com1Write com1 [ucast r])) (drop sz original)))"
    by (rule ttySendString_literal [OF assms]) simp
  moreover have "unat (ucast r :: byte) = unat r mod 256"
    by (simp add: unsigned_ucast_eq take_bit_eq_mod)
  moreover have "1 \<le> sz" "sz \<le> length original"
    using DecodeRuneInString_size_pos [OF assms(1)] DecodeRuneInString_size_le [of original] assms(5)
    by simp_all
  ultimately show ?thesis by simp
qed

theorem literal_character_byte_witness:
  "ttySendString log_write [] (''a'' @ [CHR 0xC4, CHR 0x80] @ ''b'') =
     ([Write 0x61 None, Sleep (100 * Millisecond), Write 0 None, Sleep (100 * Millisecond),
       Write 0x62 None, Sleep (100 * Millisecond)], [0x61, 0, 0x62])
   \<and> ttySendUnit log_write [0x61] ([CHR 0xC4, CHR 0x80] @ ''b'') =
     ([Write 0 None, Sleep (100 * Millisecond)], [0x61, 0], ''b'')
   \<and> unat (ucast (0x100 :: rune) :: byte) = 0"
proof -
  have no: "\<not> HasPrefix (''a'' @ [CHR 0xC4, CHR 0x80] @ ''b'') ''<wait>''"
    "\<not> HasPrefix (''a'' @ [CHR 0xC4, CHR 0x80] @ ''b'') ''<wait5>''"
    "\<not> HasPrefix (''a'' @ [CHR 0xC4, CHR 0x80] @ ''b'') ''<wait10>''"
    "\<not> HasPrefix ([CHR 0xC4, CHR 0x80] @ ''b'') ''<wait>''"
    "\<not> HasPrefix ([CHR 0xC4, CHR 0x80] @ ''b'') ''<wait5>''"
    "\<not> HasPrefix ([CHR 0xC4, CHR 0x80] @ ''b'') ''<wait10>''"
    by (simp_all add: HasPrefix_def)
  have low: "(ucast (0x100 :: rune) :: byte) = 0"
    by simp
  have ne: "''a'' @ [CHR 0xC4, CHR 0x80] @ ''b'' \<noteq> []" "[CHR 0xC4, CHR 0x80] @ ''b'' \<noteq> []" "''b'' \<noteq> []"
    by simp_all
  have s3: "ttySendString log_write [0x61, 0] ''b'' =
      ([Write 0x62 None, Sleep (100 * Millisecond)], [0x61, 0, 0x62])"
    using literal_character_byte [OF ne(3) no_directive_ab(4) no_directive_ab(5) no_directive_ab(6)
        Decode_b, of log_write "[0x61, 0]"]
    by (simp add: log_write_def ttySendString_Nil)
  have s2: "ttySendString log_write [0x61] ([CHR 0xC4, CHR 0x80] @ ''b'') =
      ([Write 0 None, Sleep (100 * Millisecond), Write 0x62 None, Sleep (100 * Millisecond)],
       [0x61, 0, 0x62])"
    and u2: "ttySendUnit log_write [0x61] ([CHR 0xC4, CHR 0x80] @ ''b'') =
      ([Write 0 None, Sleep (100 * Millisecond)], [0x61, 0], ''b'')"
    and m: "unat (ucast (0x100 :: rune) :: byte) = 0"
    using literal_character_byte [OF ne(2) no(4) no(5) no(6) Decode_U0100_b, of log_write "[0x61]",
        unfolded low] s3
    by (simp_all add: log_write_def)
  have s1: "ttySendString log_write [] (''a'' @ [CHR 0xC4, CHR 0x80] @ ''b'') =
     ([Write 0x61 None, Sleep (100 * Millisecond), Write 0 None, Sleep (100 * Millisecond),
       Write 0x62 None, Sleep (100 * Millisecond)], [0x61, 0, 0x62])"
    using literal_character_byte [OF ne(1) no(1) no(2) no(3) Decode_a_U0100_b, of log_write "[]"] s2
    by (simp add: log_write_def)
  from s1 u2 m show ?thesis
    by blast
qed


section \<open>Properties of \<open>Version\<close>\<close>

lemma versionRe_at_pos: "versionRe_at s = Some n \<Longrightarrow> 0 < n"
  by (auto simp: versionRe_at_def Let_def split: list.splits if_splits)

lemma versionRe_find_end: "versionRe_find i s = Some (m0, m1) \<Longrightarrow> m1 \<noteq> 0"
proof (induction s arbitrary: i)
  case Nil
  then show ?case by (simp add: versionRe_find.simps)
next
  case (Cons c cs)
  show ?case
  proof (cases "versionRe_at (c # cs)")
    case None
    with Cons show ?thesis by (simp add: versionRe_find.simps)
  next
    case (Some n)
    with Cons.prems versionRe_at_pos [OF Some] show ?thesis
      by (auto simp: versionRe_find.simps)
  qed
qed

lemma versionRe_Split2_nonempty: "versionRe_Split2 s \<noteq> []"
  by (auto simp: versionRe_Split2_def split: option.splits dest: versionRe_find_end)

text \<open>
  Whatever the binary printed, once it ran without error \<open>Version\<close> returns a nil error:
  the branch that reports "No version found" is never taken.
\<close>

theorem Version_error_nil: "snd (Version TrimSpace (Inr stdout)) = None"
  by (simp add: Version_def Let_def versionRe_Split2_nonempty)

lemma TrimSpaceASCII_usage: "TrimSpaceASCII ''usage: xhyve [-behuwxMACHPWY]'' = ''usage: xhyve [-behuwxMACHPWY]''"
  by (simp add: TrimSpaceASCII_def isSpaceASCII_def)

lemma TrimSpaceASCII_version: "TrimSpaceASCII (''xhyve: 0.2.0'' @ [CHR 0x0A]) = ''xhyve: 0.2.0''"
  by (simp add: TrimSpaceASCII_def isSpaceASCII_def)

lemma versionRe_at_version: "versionRe_at ''xhyve: 0.2.0'' = Some 12"
  by (simp add: versionRe_at_def HasPrefix_def digits_def isDigit_def)

lemma versionRe_Split2_version: "versionRe_Split2 ''xhyve: 0.2.0'' = [[], []]"
  by (simp add: versionRe_Split2_def versionRe_find.simps versionRe_at_version)

lemma versionRe_find_usage: "versionRe_find i ''usage: xhyve [-behuwxMACHPWY]'' = None"
  by (simp add: versionRe_find.simps versionRe_at_def HasPrefix_def digits_def isDigit_def)

lemma versionRe_Split2_usage: "versionRe_Split2 ''usage: xhyve [-behuwxMACHPWY]'' = [''usage: xhyve [-behuwxMACHPWY]'']"
  by (simp add: versionRe_Split2_def versionRe_find_usage)

text \<open>
  C6: the claim says that \<open>Version\<close> returns the matched version string, and an error
  "No version found" when the output has no match. The code splits the output at the
  match instead of finding it: the pieces are never none, so the error branch is dead,
  and the first piece is the text before the match. An
  output with no version comes back whole with a nil error, and an output that is a
  version comes back as the empty string.
\<close>

theorem Version_no_match_returns_output:
  "Version TrimSpaceASCII (Inr ''usage: xhyve [-behuwxMACHPWY]'') = (''usage: xhyve [-behuwxMACHPWY]'', None)
   \<and> Version TrimSpaceASCII (Inr (''xhyve: 0.2.0'' @ [CHR 0x0A])) = ([], None)"
  by (simp add: Version_def TrimSpaceASCII_usage TrimSpaceASCII_version versionRe_Split2_version versionRe_Split2_usage del: append.simps)

section \<open>Properties of \<open>Builder.Run\<close>\<close>


lemma visit_simps:
  "visit path (Some False) None files = (Return None, files @ [path])"
  "visit path (Some True) err files = (Return err, files)"
  "visit path None err files = (Panic ''invalid memory address or nil pointer dereference'', files)"
  by (simp_all add: visit_def)


lemma walk_demo_tree: "walk visit slashJoin ''out'' demo_tree [] = (Return None, [''out/a'', ''out/b/c''])"
  by (simp add: demo_tree_def visit_simps slashJoin_def)

lemma walk_unreadable:
  "walk visit slashJoin ''out'' (DirUnreadable ''open out: permission denied'') [] =
     (Return (Some ''open out: permission denied''), [])"
  by (simp add: visit_simps)

text \<open>
  C7 as stated fails. A run halted by a step that recorded no error (as the run step does
  when the launch fails) ends with "Build was halted.", which is none of the three
  outcomes; and a run that completes without error, cancellation or halt returns no
  artifact when the walk of the output directory fails.
\<close>

theorem Run_outcomes_counterexample:
  "Run demo_config (demo_world steps_halted demo_tree) = Return (None, Some ''Build was halted.'')
   \<and> Run demo_config (demo_world steps_complete (DirUnreadable ''open out: permission denied'')) =
       Return (None, Some ''open out: permission denied'')"
  by (simp add: Run_def demo_world_def demo_config_def steps_halted_def steps_complete_def
      new_state_def StateHalted_def StateCancelled_def visit_simps)

text \<open>
  C7, amended: once the driver is created, \<open>Builder.Run\<close> decides in this order. A step
  recorded an error in the state: no artifact, that error. Otherwise the cancellation flag
  is set: no artifact, "Build was cancelled.". Otherwise the halt flag is set: no
  artifact, "Build was halted.". Otherwise the walk of the output directory returns an
  error: no artifact, that error. Otherwise, if the walk of the output directory returns
  no error and \<open>disk_filename\<close> is a string in the state, the artifact, with the files the
  walk collected, is returned with a nil error.
\<close>

theorem Run_outcomes:
  assumes "newDriver w = Inr driver" and "state = runner w new_state"
  shows "(state ''error'' = Some (VError rawErr) \<longrightarrow> Run config w = Return (None, Some rawErr))
    \<and> (state ''error'' = None \<and> state StateCancelled \<noteq> None \<longrightarrow>
          Run config w = Return (None, Some ''Build was cancelled.''))
    \<and> (state ''error'' = None \<and> state StateCancelled = None \<and> state StateHalted \<noteq> None \<longrightarrow>
          Run config w = Return (None, Some ''Build was halted.''))
    \<and> (state ''error'' = None \<and> state StateCancelled = None \<and> state StateHalted = None
          \<and> walk visit (Join w) (OutputDir config) (outputTree w) [] = (Return (Some err), files) \<longrightarrow>
          Run config w = Return (None, Some err))
    \<and> (state ''error'' = None \<and> state StateCancelled = None \<and> state StateHalted = None
          \<and> walk visit (Join w) (OutputDir config) (outputTree w) [] = (Return None, files)
          \<and> state ''disk_filename'' = Some (VString diskName) \<longrightarrow>
          Run config w =
            Return
              (Some \<lparr>art_dir = OutputDir config, art_f = files,
                 art_state = [''diskName'' \<mapsto> VString diskName,
                   ''diskFormat'' \<mapsto> VString (Format config),
                   ''diskSize'' \<mapsto> VUint64 (ucast (DiskSize config))]\<rparr>,
               None))"
  using assms by (simp add: Run_def Let_def)


theorem Run_outcomes_witness:
  "Run demo_config (demo_world steps_failed demo_tree) =
       Return (None, Some ''Error connecting to /dev/ttys004: no such file'')
   \<and> Run demo_config (demo_world steps_cancelled demo_tree) = Return (None, Some ''Build was cancelled.'')
   \<and> Run demo_config (demo_world steps_halted demo_tree) = Return (None, Some ''Build was halted.'')
   \<and> Run demo_config (demo_world steps_complete (DirUnreadable ''open out: permission denied'')) =
       Return (None, Some ''open out: permission denied'')
   \<and> Run demo_config (demo_world steps_complete demo_tree) =
       Return
         (Some \<lparr>art_dir = ''out'', art_f = [''out/a'', ''out/b/c''],
            art_state = [''diskName'' \<mapsto> VString ''disk.raw'', ''diskFormat'' \<mapsto> VString ''raw'',
              ''diskSize'' \<mapsto> VUint64 40000]\<rparr>,
          None)"
proof -
  have drv: "newDriver (demo_world steps tree) = Inr idle_driver" for steps tree
    by (simp add: demo_world_def)
  have w: "runner (demo_world steps tree) = steps" "Join (demo_world steps tree) = slashJoin"
    "outputTree (demo_world steps tree) = tree" for steps tree
    by (simp_all add: demo_world_def)
  have c: "OutputDir demo_config = ''out''" "Format demo_config = ''raw''" "DiskSize demo_config = 40000"
    by (simp_all add: demo_config_def)
  have failed: "steps_failed new_state ''error'' =
      Some (VError ''Error connecting to /dev/ttys004: no such file'')"
    by (simp add: steps_failed_def StateHalted_def)
  have cancelled: "steps_cancelled new_state ''error'' = None"
    "steps_cancelled new_state StateCancelled \<noteq> None"
    by (simp_all add: steps_cancelled_def new_state_def StateCancelled_def StateHalted_def)
  have halted: "steps_halted new_state ''error'' = None" "steps_halted new_state StateCancelled = None"
    "steps_halted new_state StateHalted \<noteq> None"
    by (simp_all add: steps_halted_def new_state_def StateCancelled_def StateHalted_def)
  have complete: "steps_complete new_state ''error'' = None"
    "steps_complete new_state StateCancelled = None" "steps_complete new_state StateHalted = None"
    "steps_complete new_state ''disk_filename'' = Some (VString ''disk.raw'')"
    by (simp_all add: steps_complete_def new_state_def StateCancelled_def StateHalted_def)
  have 1: "Run demo_config (demo_world steps_failed demo_tree) =
       Return (None, Some ''Error connecting to /dev/ttys004: no such file'')"
    using Run_outcomes [OF drv refl, of steps_failed demo_tree
        "''Error connecting to /dev/ttys004: no such file''" demo_config]
    by (simp add: w failed)
  have 2: "Run demo_config (demo_world steps_cancelled demo_tree) =
       Return (None, Some ''Build was cancelled.'')"
    using Run_outcomes [OF drv refl, of steps_cancelled demo_tree _ demo_config] cancelled
    by (simp add: w)
  have 3: "Run demo_config (demo_world steps_halted demo_tree) = Return (None, Some ''Build was halted.'')"
    using Run_outcomes [OF drv refl, of steps_halted demo_tree _ demo_config] halted
    by (simp add: w)
  have 4: "Run demo_config (demo_world steps_complete (DirUnreadable ''open out: permission denied'')) =
       Return (None, Some ''open out: permission denied'')"
    using Run_outcomes [OF drv refl, of steps_complete "DirUnreadable ''open out: permission denied''"
        _ demo_config "''open out: permission denied''" "[]"] complete walk_unreadable
    by (simp add: w c)
  have 5: "Run demo_config (demo_world steps_complete demo_tree) =
       Return
         (Some \<lparr>art_dir = ''out'', art_f = [''out/a'', ''out/b/c''],
            art_state = [''diskName'' \<mapsto> VString ''disk.raw'', ''diskFormat'' \<mapsto> VString ''raw'',
              ''diskSize'' \<mapsto> VUint64 40000]\<rparr>,
          None)"
    using Run_outcomes [OF drv refl, of steps_complete demo_tree
        _ demo_config _ "[''out/a'', ''out/b/c'']" "''disk.raw''"] complete walk_demo_tree
    by (simp add: w c)
  from 1 2 3 4 5 show ?thesis
    by blast
qed




end
